theory Spec2Isabelle
  imports Main
begin

section \<open>The raw synchronous client of flytekit (flytekit/clients/raw.py)\<close>

text \<open>
  Python strings are modelled as \<open>string\<close>, one \<open>char\<close> per code point below 256.
  Exceptions are values of the type \<open>exn\<close>; a function that can raise returns
  \<open>exn + 'a\<close>, a procedure that mutates the client returns \<open>exn option\<close> together with
  the state it leaves behind. Calls of \<open>cli_logger\<close> have no effect on any value and are
  left out.
\<close>

subsection \<open>Status codes and exceptions\<close>

text \<open>The members of \<open>grpc.StatusCode\<close>.\<close>

datatype grpc_status_code =
    OK | CANCELLED | UNKNOWN | INVALID_ARGUMENT | DEADLINE_EXCEEDED | NOT_FOUND
  | ALREADY_EXISTS | PERMISSION_DENIED | RESOURCE_EXHAUSTED | FAILED_PRECONDITION
  | ABORTED | OUT_OF_RANGE | UNIMPLEMENTED | INTERNAL | UNAVAILABLE | DATA_LOSS
  | UNAUTHENTICATED

text \<open>A \<open>grpc.RpcError\<close>: what \<open>e.code()\<close> answers, and the text of the failure.\<close>

datatype rpc_error = RpcFailure (code: grpc_status_code) (details: string)

datatype exn =
    RpcError rpc_error
  | FlyteAuthenticationException string
  | FlyteEntityAlreadyExistsException rpc_error
  | FlyteEntityNotExistException rpc_error
  | ValueError string
  | AttributeError string
  | IndexError
  | KeyError string
  | CalledProcessError int "string list"
  | OtherException string

subsection \<open>String operations of the Python library used by the client\<close>

text \<open>
  \<open>s.replace(old, new)\<close>: every occurrence of \<open>old\<close>, found from the left without
  overlap, becomes \<open>new\<close>; an empty \<open>old\<close> matches before every character and at the end.
\<close>

function str_replace :: "string \<Rightarrow> string \<Rightarrow> string \<Rightarrow> string" where
  "str_replace old new s =
     (if old = [] then new @ concat (map (\<lambda>c. c # new) s)
      else if s = [] then []
      else if take (length old) s = old then new @ str_replace old new (drop (length old) s)
      else hd s # str_replace old new (tl s))"
  by pat_completeness auto
termination
  by (relation "measure (\<lambda>(old, new, s). length s)") (auto simp: less_Suc_eq_le)

text \<open>\<open>str.isspace\<close> on the code points below 256, and \<open>s.strip()\<close>.\<close>

definition is_space :: "char \<Rightarrow> bool" where
  "is_space c =
     (let n = (of_char c :: nat)
      in (9 \<le> n \<and> n \<le> 13) \<or> (28 \<le> n \<and> n \<le> 32) \<or> n = 133 \<or> n = 160)"

definition str_strip :: "string \<Rightarrow> string" where
  "str_strip s = rev (dropWhile is_space (rev (dropWhile is_space s)))"

text \<open>\<open>sep.join(xs)\<close>.\<close>

fun str_join :: "string \<Rightarrow> string list \<Rightarrow> string" where
  "str_join sep [] = []"
| "str_join sep [x] = x"
| "str_join sep (x # y # ys) = x @ sep @ str_join sep (y # ys)"

text \<open>\<open>s.encode("utf-8")\<close>, for code points below 256: one byte below 128, two above.\<close>

definition utf8_encode :: "string \<Rightarrow> nat list" where
  "utf8_encode s =
     concat (map (\<lambda>c. let n = (of_char c :: nat)
                       in if n < 128 then [n] else [192 + n div 64, 128 + n mod 64]) s)"

text \<open>\<open>base64.b64encode\<close> (RFC 4648, with padding), its result read back as text.\<close>

definition b64_alphabet :: string where
  "b64_alphabet = ''ABCDEFGHIJKLMNOPQRSTUVWXYZabcdefghijklmnopqrstuvwxyz0123456789+/''"

fun b64encode :: "nat list \<Rightarrow> string" where
  "b64encode [] = []"
| "b64encode [a] =
     [b64_alphabet ! (a div 4), b64_alphabet ! ((a mod 4) * 16), CHR ''='', CHR ''='']"
| "b64encode [a, b] =
     [b64_alphabet ! (a div 4), b64_alphabet ! ((a mod 4) * 16 + b div 16),
      b64_alphabet ! ((b mod 16) * 4), CHR ''='']"
| "b64encode (a # b # c # rest) =
     [b64_alphabet ! (a div 4), b64_alphabet ! ((a mod 4) * 16 + b div 16),
      b64_alphabet ! ((b mod 16) * 4 + c div 64), b64_alphabet ! (c mod 64)]
     @ b64encode rest"

subsection \<open>The client object\<close>

text \<open>
  The two answers of the auth metadata service that the constructor keeps, or \<open>None\<close>
  when the fetch failed.
\<close>

record public_client_auth_config =
  authorization_metadata_key :: string
  redirect_uri :: string
  client_id :: string
  scopes :: "string list"

record oauth2_metadata_response =
  authorization_endpoint :: string
  token_endpoint :: string

text \<open>
  \<open>RawSynchronousFlyteClient\<close>: \<open>metadata\<close> is the field \<open>_metadata\<close>, \<open>None\<close> until a
  token is set, then a list of (key, value) pairs whose key may itself be \<open>None\<close>.
\<close>

record client =
  public_client_config :: "public_client_auth_config option"
  oauth2_metadata :: "oauth2_metadata_response option"
  metadata :: "(string option \<times> string) list option"

definition set_access_token :: "client \<Rightarrow> string \<Rightarrow> string option \<Rightarrow> client" where
  "set_access_token self access_token authorization_header_key =
     self\<lparr>metadata := Some [(authorization_header_key, ''Bearer '' @ access_token)]\<rparr>"

text \<open>The call with the header key left to its default, \<open>"authorization"\<close>.\<close>

definition set_access_token_default :: "client \<Rightarrow> string \<Rightarrow> client" where
  "set_access_token_default self access_token =
     set_access_token self access_token (Some ''authorization'')"

definition check_access_token :: "client \<Rightarrow> string \<Rightarrow> exn + bool" where
  "check_access_token self access_token =
     (case metadata self of
        None \<Rightarrow> Inr False
      | Some [] \<Rightarrow> Inl IndexError
      | Some ((k, v) # rest) \<Rightarrow> Inr (access_token = str_replace ''Bearer '' [] v))"

subsection \<open>Configuration and the world outside the client\<close>

text \<open>
  The entries of \<open>flytekit.configuration.creds\<close> that the client reads with \<open>.get()\<close>.
  An unset secret is \<open>None\<close>; an unset scope list is empty.
\<close>

record config =
  AUTH_MODE :: string
  CLIENT_ID :: string
  CLIENT_CREDENTIALS_SECRET :: "string option"
  SCOPES :: "string list"
  COMMAND :: "string list"

text \<open>What \<open>requests.post\<close> answers: \<open>json\<close> is the parsed body, or the failure to parse it.\<close>

record http_response =
  status_code :: int
  response_text :: string
  json :: "exn + (string \<times> string) list"

text \<open>What a finished process leaves (\<open>subprocess.CompletedProcess\<close>).\<close>

record completed_process =
  returncode :: int
  stdout :: string

text \<open>
  Everything the client reaches outside itself, over a state \<open>'w\<close> of the outside world:
  the HTTP library, the process runner, \<open>str\<close> on an exception, and the authorization
  client of \<open>flytekit.clis.auth.credentials\<close> (a singleton, so part of the world).
\<close>

record 'w externals =
  py_str :: "exn \<Rightarrow> string"
  requests_post ::
    "string \<Rightarrow> (string \<times> string) list \<Rightarrow> (string \<times> string) list \<Rightarrow> 'w
      \<Rightarrow> (exn + http_response) \<times> 'w"
  run_process :: "string list \<Rightarrow> 'w \<Rightarrow> (exn + completed_process) \<times> 'w"
  get_client :: "string \<Rightarrow> string \<Rightarrow> string list \<Rightarrow> string \<Rightarrow> string \<Rightarrow> 'w \<Rightarrow> exn option \<times> 'w"
  has_valid_credentials :: "'w \<Rightarrow> bool"
  credentials_access_token :: "'w \<Rightarrow> exn + string"
  can_refresh_token :: "'w \<Rightarrow> bool"
  refresh_access_token :: "'w \<Rightarrow> exn option \<times> 'w"
  start_authorization_flow :: "'w \<Rightarrow> exn option \<times> 'w"
  clear :: "'w \<Rightarrow> 'w"

text \<open>The client together with the world it runs in.\<close>

record 'w state =
  flyte_client :: client
  world :: 'w

subsection \<open>Helpers of the direct-secret flow\<close>

definition get_basic_authorization_header :: "string \<Rightarrow> string \<Rightarrow> string" where
  "get_basic_authorization_header cid client_secret =
     (let concated = cid @ '':'' @ client_secret
      in ''Basic '' @ b64encode (utf8_encode concated))"

definition get_secret :: "config \<Rightarrow> exn + string" where
  "get_secret cfg =
     (case CLIENT_CREDENTIALS_SECRET cfg of
        Some secret \<Rightarrow>
          if secret \<noteq> [] then Inr secret
          else Inl (FlyteAuthenticationException ''No secret could be found'')
      | None \<Rightarrow> Inl (FlyteAuthenticationException ''No secret could be found''))"

text \<open>\<open>d[k]\<close> on a parsed JSON object.\<close>

definition json_get :: "(string \<times> string) list \<Rightarrow> string \<Rightarrow> exn + string" where
  "json_get d k = (case map_of d k of None \<Rightarrow> Inl (KeyError k) | Some v \<Rightarrow> Inr v)"

definition get_token ::
  "'w externals \<Rightarrow> string \<Rightarrow> string \<Rightarrow> string option \<Rightarrow> 'w \<Rightarrow> (exn + string \<times> string) \<times> 'w"
where
  "get_token ext endpoint authorization_header scope w =
     (let headers = [(''Authorization'', authorization_header),
                     (''Cache-Control'', ''no-cache''),
                     (''Accept'', ''application/json''),
                     (''Content-Type'', ''application/x-www-form-urlencoded'')];
          body = [(''grant_type'', ''client_credentials'')]
                 @ (case scope of None \<Rightarrow> [] | Some sc \<Rightarrow> [(''scope'', sc)])
      in case requests_post ext endpoint body headers w of
           (Inl e, w1) \<Rightarrow> (Inl e, w1)
         | (Inr response, w1) \<Rightarrow>
             if status_code response \<noteq> 200
             then (Inl (FlyteAuthenticationException ''Non-200 received from IDP''), w1)
             else (case json response of
                     Inl e \<Rightarrow> (Inl e, w1)
                   | Inr d \<Rightarrow>
                       (case json_get d ''access_token'' of
                          Inl e \<Rightarrow> (Inl e, w1)
                        | Inr tok \<Rightarrow>
                            (case json_get d ''expires_in'' of
                               Inl e \<Rightarrow> (Inl e, w1)
                             | Inr expires_in \<Rightarrow> (Inr (tok, expires_in), w1)))))"

text \<open>\<open>subprocess.run(command, capture_output=True, text=True, check=True)\<close>.\<close>

definition subprocess_run_check ::
  "'w externals \<Rightarrow> string list \<Rightarrow> 'w \<Rightarrow> (exn + completed_process) \<times> 'w"
where
  "subprocess_run_check ext command w =
     (case run_process ext command w of
        (Inl e, w1) \<Rightarrow> (Inl e, w1)
      | (Inr out, w1) \<Rightarrow>
          if returncode out \<noteq> 0 then (Inl (CalledProcessError (returncode out) command), w1)
          else (Inr out, w1))"

subsection \<open>The refresh handlers\<close>

text \<open>\<open>x or None\<close> on a string.\<close>

definition or_None :: "string \<Rightarrow> string option" where
  "or_None x = (if x = [] then None else Some x)"

definition no_admin_response :: string where
  "no_admin_response =
     ''Raw Flyte client attempting client credentials flow but no response from Admin detected. ''
     @ ''Check your Admin server'' @ [CHR 0x27]
     @ ''s .well-known endpoints to make sure they'' @ [CHR 0x27]
     @ ''re working as expected.''"

text \<open>What reading an attribute of \<open>None\<close> raises.\<close>

definition none_has_no_attribute :: "string \<Rightarrow> exn" where
  "none_has_no_attribute name =
     AttributeError ([CHR 0x27] @ ''NoneType'' @ [CHR 0x27] @ '' object has no attribute ''
                     @ [CHR 0x27] @ name @ [CHR 0x27])"

definition refresh_credentials_standard ::
  "'w externals \<Rightarrow> 'w state \<Rightarrow> exn option \<times> 'w state"
where
  "refresh_credentials_standard ext s =
     (let self = flyte_client s in
      case public_client_config self of
        None \<Rightarrow> (Some (none_has_no_attribute ''authorization_metadata_key''), s)
      | Some pcc \<Rightarrow>
         (let authorization_header_key = or_None (authorization_metadata_key pcc) in
          case oauth2_metadata self of
            None \<Rightarrow> (Some (ValueError no_admin_response), s)
          | Some om \<Rightarrow>
             (case get_client ext (redirect_uri pcc) (client_id pcc) (scopes pcc)
                     (authorization_endpoint om) (token_endpoint om) (world s) of
                (Some e, w1) \<Rightarrow> (Some e, s\<lparr>world := w1\<rparr>)
              | (None, w1) \<Rightarrow>
                 (let finish = (\<lambda>w2.
                        case credentials_access_token ext w2 of
                          Inl e \<Rightarrow> (Some e, s\<lparr>world := w2\<rparr>)
                        | Inr tok \<Rightarrow>
                            (None, \<lparr>flyte_client =
                                       set_access_token self tok authorization_header_key,
                                    world = w2\<rparr>));
                      otherwise = (\<lambda>u::unit.
                        if can_refresh_token ext w1
                        then (case refresh_access_token ext w1 of
                                (Some e, w2) \<Rightarrow> (Some e, s\<lparr>world := w2\<rparr>)
                              | (None, w2) \<Rightarrow> finish w2)
                        else (case start_authorization_flow ext w1 of
                                (Some e, w2) \<Rightarrow> (Some e, s\<lparr>world := w2\<rparr>)
                              | (None, w2) \<Rightarrow> finish w2))
                  in if has_valid_credentials ext w1
                     then (case credentials_access_token ext w1 of
                             Inl e \<Rightarrow> (Some e, s\<lparr>world := w1\<rparr>)
                           | Inr tok \<Rightarrow>
                              (case check_access_token self tok of
                                 Inl e \<Rightarrow> (Some e, s\<lparr>world := w1\<rparr>)
                               | Inr same \<Rightarrow>
                                   if \<not> same
                                   then (None, \<lparr>flyte_client =
                                                  set_access_token self tok
                                                    authorization_header_key,
                                                world = clear ext w1\<rparr>)
                                   else otherwise ()))
                     else otherwise ()))))"

definition refresh_credentials_basic ::
  "config \<Rightarrow> 'w externals \<Rightarrow> 'w state \<Rightarrow> exn option \<times> 'w state"
where
  "refresh_credentials_basic cfg ext s =
     (let self = flyte_client s in
      case (oauth2_metadata self, public_client_config self) of
        (Some om, Some pcc) \<Rightarrow>
          (let endpoint = token_endpoint om;
               scopes0 = (if SCOPES cfg \<noteq> [] then SCOPES cfg else scopes pcc);
               scopes1 = str_join '','' scopes0
           in case get_secret cfg of
                Inl e \<Rightarrow> (Some e, s)
              | Inr client_secret \<Rightarrow>
                 (let authorization_header =
                        get_basic_authorization_header (CLIENT_ID cfg) client_secret
                  in case get_token ext endpoint authorization_header (Some scopes1) (world s) of
                       (Inl e, w1) \<Rightarrow> (Some e, s\<lparr>world := w1\<rparr>)
                     | (Inr (tok, expires_in), w1) \<Rightarrow>
                        (let authorization_header_key =
                               or_None (authorization_metadata_key pcc)
                         in (None, \<lparr>flyte_client =
                                      set_access_token self tok authorization_header_key,
                                    world = w1\<rparr>))))
      | _ \<Rightarrow> (Some (ValueError no_admin_response), s))"

definition refresh_credentials_from_command ::
  "config \<Rightarrow> 'w externals \<Rightarrow> 'w state \<Rightarrow> exn option \<times> 'w state"
where
  "refresh_credentials_from_command cfg ext s =
     (let command = COMMAND cfg in
      case subprocess_run_check ext command (world s) of
        (Inl e, w1) \<Rightarrow>
          (case e of
             CalledProcessError rc cmd \<Rightarrow>
               (Some (FlyteAuthenticationException
                        (''Problems refreshing token with command: '' @ py_str ext e)),
                s\<lparr>world := w1\<rparr>)
           | _ \<Rightarrow> (Some e, s\<lparr>world := w1\<rparr>))
      | (Inr output, w1) \<Rightarrow>
          (None, \<lparr>flyte_client =
                    set_access_token_default (flyte_client s) (str_strip (stdout output)),
                  world = w1\<rparr>))"

definition refresh_credentials_noop :: "'w state \<Rightarrow> exn option \<times> 'w state" where
  "refresh_credentials_noop s = (None, s)"

subsection \<open>Selecting the refresh handler\<close>

text \<open>The function objects that \<open>_get_refresh_handler\<close> can return, by name.\<close>

datatype refresh_handler =
    Refresh_credentials_standard
  | Refresh_credentials_basic
  | Refresh_credentials_from_command
  | Refresh_credentials_noop

definition get_refresh_handler :: "string \<Rightarrow> exn + refresh_handler" where
  "get_refresh_handler auth_mode =
     (if auth_mode = ''standard'' then Inr Refresh_credentials_standard
      else if auth_mode = ''basic'' \<or> auth_mode = ''client_credentials''
        then Inr Refresh_credentials_basic
      else if auth_mode = ''external_process'' then Inr Refresh_credentials_from_command
      else Inl (ValueError (''Invalid auth mode ['' @ auth_mode
                  @ ''] specified. Please update the creds config to use a valid value'')))"

text \<open>Calling the function object on the client.\<close>

fun call_refresh_handler ::
  "refresh_handler \<Rightarrow> config \<Rightarrow> 'w externals \<Rightarrow> 'w state \<Rightarrow> exn option \<times> 'w state"
where
  "call_refresh_handler Refresh_credentials_standard cfg ext s =
     refresh_credentials_standard ext s"
| "call_refresh_handler Refresh_credentials_basic cfg ext s =
     refresh_credentials_basic cfg ext s"
| "call_refresh_handler Refresh_credentials_from_command cfg ext s =
     refresh_credentials_from_command cfg ext s"
| "call_refresh_handler Refresh_credentials_noop cfg ext s = refresh_credentials_noop s"

subsection \<open>The decorators\<close>

definition max_retries :: nat where
  "max_retries = 3"

definition max_wait_time :: nat where
  "max_wait_time = 1000"

text \<open>
  What one run of the wrapper does, in order: a call of the wrapped function, a call of a
  refresh handler, a \<open>time.sleep\<close> (the argument in milliseconds, before the division
  by 1000 that turns it into seconds). The wrapper itself records them; nothing the wrapped
  function does can touch the record.
\<close>

datatype event = Invoke | Refresh refresh_handler | Sleep nat

definition after :: "event list \<Rightarrow> 'a \<times> event list \<Rightarrow> 'a \<times> event list" where
  "after evs res = (fst res, evs @ snd res)"

text \<open>
  The body of \<open>handler\<close> in \<open>_handle_rpc_error\<close>, over the values that \<open>i\<close> still has to
  take. A Python function that leaves its loop without \<open>return\<close> answers \<open>None\<close>, and so
  does a wrapped function without a value: results are \<open>'r option\<close>.
\<close>

primrec handler_loop ::
  "config \<Rightarrow> 'w externals \<Rightarrow> bool \<Rightarrow> ('w state \<Rightarrow> (exn + 'r option) \<times> 'w state)
     \<Rightarrow> nat list \<Rightarrow> 'w state \<Rightarrow> ((exn + 'r option) \<times> 'w state) \<times> event list"
where
  "handler_loop cfg ext retry fn [] s = ((Inr None, s), [])"
| "handler_loop cfg ext retry fn (i # rest) s =
     (case fn s of
        (Inr r, s1) \<Rightarrow> ((Inr r, s1), [Invoke])
      | (Inl ex, s1) \<Rightarrow>
         (case ex of
            RpcError e \<Rightarrow>
              if code e = UNAUTHENTICATED then
                if i = max_retries - 1
                then ((Inl (FlyteAuthenticationException (py_str ext ex)), s1), [Invoke])
                else (case get_refresh_handler (AUTH_MODE cfg) of
                        Inl ex1 \<Rightarrow> ((Inl ex1, s1), [Invoke])
                      | Inr refresh_handler_fn \<Rightarrow>
                         (case call_refresh_handler refresh_handler_fn cfg ext s1 of
                            (Some ex1, s2) \<Rightarrow>
                              ((Inl ex1, s2), [Invoke, Refresh refresh_handler_fn])
                          | (None, s2) \<Rightarrow>
                              after [Invoke, Refresh refresh_handler_fn]
                                (handler_loop cfg ext retry fn rest s2)))
              else if code e = ALREADY_EXISTS
                then ((Inl (FlyteEntityAlreadyExistsException e), s1), [Invoke])
              else if code e = NOT_FOUND
                then ((Inl (FlyteEntityNotExistException e), s1), [Invoke])
              else if retry = False \<or> i = max_retries - 1 then ((Inl ex, s1), [Invoke])
              else (let wait_time = min (200 * 2 ^ i) max_wait_time
                    in after [Invoke, Sleep wait_time]
                         (handler_loop cfg ext retry fn rest s1))
          | _ \<Rightarrow> ((Inl ex, s1), [Invoke])))"

definition handle_rpc_error ::
  "config \<Rightarrow> 'w externals \<Rightarrow> bool \<Rightarrow> ('w state \<Rightarrow> (exn + 'r option) \<times> 'w state)
     \<Rightarrow> 'w state \<Rightarrow> ((exn + 'r option) \<times> 'w state) \<times> event list"
where
  "handle_rpc_error cfg ext retry fn s = handler_loop cfg ext retry fn [0..<max_retries] s"

text \<open>
  \<open>_handle_invalid_create_request\<close>: the wrapped function is called for its effect, an
  \<open>RpcError\<close> is raised again (with INVALID_ARGUMENT the request is logged first), and
  the handler ends without a \<open>return\<close>.
\<close>

definition handle_invalid_create_request ::
  "('req \<Rightarrow> 'w state \<Rightarrow> (exn + 'r option) \<times> 'w state)
     \<Rightarrow> 'req \<Rightarrow> 'w state \<Rightarrow> (exn + 'r option) \<times> 'w state"
where
  "handle_invalid_create_request fn create_request s =
     (case fn create_request s of
        (Inr r, s1) \<Rightarrow> (Inr None, s1)
      | (Inl ex, s1) \<Rightarrow>
         (case ex of
            RpcError e \<Rightarrow>
              if code e = INVALID_ARGUMENT then (Inl (RpcError e), s1)
              else (Inl (RpcError e), s1)
          | _ \<Rightarrow> (Inl ex, s1)))"

subsection \<open>The remote operations\<close>

text \<open>
  A method of the generated stub: request and call metadata in, response or exception
  out, the world changed. The body of every operation of the client is
  \<open>return self._stub.M(request, metadata=self._metadata)\<close>.
\<close>

type_synonym ('req, 'resp, 'w) stub_method =
  "'req \<Rightarrow> (string option \<times> string) list option \<Rightarrow> 'w \<Rightarrow> (exn + 'resp) \<times> 'w"

definition stub_call ::
  "('req, 'resp, 'w) stub_method \<Rightarrow> 'req \<Rightarrow> 'w state \<Rightarrow> (exn + 'resp option) \<times> 'w state"
where
  "stub_call m request s =
     (case m request (metadata (flyte_client s)) (world s) of
        (Inl e, w1) \<Rightarrow> (Inl e, s\<lparr>world := w1\<rparr>)
      | (Inr response, w1) \<Rightarrow> (Inr (Some response), s\<lparr>world := w1\<rparr>))"

definition create_task ::
  "config \<Rightarrow> 'w externals \<Rightarrow> ('req, 'resp, 'w) stub_method \<Rightarrow> 'req \<Rightarrow> 'w state
     \<Rightarrow> ((exn + 'resp option) \<times> 'w state) \<times> event list"
where
  "create_task cfg ext CreateTask task_create_request =
     handle_rpc_error cfg ext False
       (handle_invalid_create_request (stub_call CreateTask) task_create_request)"

definition create_workflow ::
  "config \<Rightarrow> 'w externals \<Rightarrow> ('req, 'resp, 'w) stub_method \<Rightarrow> 'req \<Rightarrow> 'w state
     \<Rightarrow> ((exn + 'resp option) \<times> 'w state) \<times> event list"
where
  "create_workflow cfg ext CreateWorkflow workflow_create_request =
     handle_rpc_error cfg ext False
       (handle_invalid_create_request (stub_call CreateWorkflow) workflow_create_request)"

definition create_launch_plan ::
  "config \<Rightarrow> 'w externals \<Rightarrow> ('req, 'resp, 'w) stub_method \<Rightarrow> 'req \<Rightarrow> 'w state
     \<Rightarrow> ((exn + 'resp option) \<times> 'w state) \<times> event list"
where
  "create_launch_plan cfg ext CreateLaunchPlan launch_plan_create_request =
     handle_rpc_error cfg ext False
       (handle_invalid_create_request (stub_call CreateLaunchPlan) launch_plan_create_request)"

text \<open>
  The other operations carry \<open>_handle_rpc_error\<close> alone: the list and get operations
  with \<open>retry=True\<close> (as \<open>get_task\<close>), the update, execution and project operations
  without (as \<open>update_launch_plan\<close>).
\<close>

definition get_task ::
  "config \<Rightarrow> 'w externals \<Rightarrow> ('req, 'resp, 'w) stub_method \<Rightarrow> 'req \<Rightarrow> 'w state
     \<Rightarrow> ((exn + 'resp option) \<times> 'w state) \<times> event list"
where
  "get_task cfg ext GetTask get_object_request =
     handle_rpc_error cfg ext True (stub_call GetTask get_object_request)"

definition update_launch_plan ::
  "config \<Rightarrow> 'w externals \<Rightarrow> ('req, 'resp, 'w) stub_method \<Rightarrow> 'req \<Rightarrow> 'w state
     \<Rightarrow> ((exn + 'resp option) \<times> 'w state) \<times> event list"
where
  "update_launch_plan cfg ext UpdateLaunchPlan update_request =
     handle_rpc_error cfg ext False (stub_call UpdateLaunchPlan update_request)"

subsection \<open>Constructing the client\<close>

text \<open>
  The two fetches of \<open>__init__\<close>: an \<open>RpcError\<close> leaves \<open>None\<close>, any other exception
  leaves the constructor. \<open>_metadata\<close> starts as \<open>None\<close>.
\<close>

fun fetch_or_None :: "exn + 'a \<Rightarrow> exn + 'a option" where
  "fetch_or_None (Inr resp) = Inr (Some resp)"
| "fetch_or_None (Inl (RpcError e)) = Inr None"
| "fetch_or_None (Inl ex) = Inl ex"

definition init_client ::
  "exn + public_client_auth_config \<Rightarrow> exn + oauth2_metadata_response \<Rightarrow> exn + client"
where
  "init_client GetPublicClientConfig GetOAuth2Metadata =
     (case fetch_or_None GetPublicClientConfig of
        Inl ex \<Rightarrow> Inl ex
      | Inr pcc \<Rightarrow>
         (case fetch_or_None GetOAuth2Metadata of
            Inl ex \<Rightarrow> Inl ex
          | Inr om \<Rightarrow>
              Inr \<lparr>public_client_config = pcc, oauth2_metadata = om, metadata = None\<rparr>))"

subsection \<open>What the specification asks of the header key\<close>

text \<open>
  The specification's words for \<open>setAccessToken\<close>: the header key is stored in lower
  case. \<open>str_lower\<close> is \<open>str.lower\<close> on the code points below 256.
\<close>

definition str_lower :: "string \<Rightarrow> string" where
  "str_lower s =
     map (\<lambda>c. let n = (of_char c :: nat)
               in if (65 \<le> n \<and> n \<le> 90) \<or> (192 \<le> n \<and> n \<le> 222 \<and> n \<noteq> 215)
                  then char_of (n + 32) else c) s"

definition spec_set_access_token :: "client \<Rightarrow> string \<Rightarrow> string \<Rightarrow> client" where
  "spec_set_access_token self access_token header_key =
     self\<lparr>metadata := Some [(Some (str_lower header_key), ''Bearer '' @ access_token)]\<rparr>"

subsection \<open>A scripted world for concrete runs\<close>

text \<open>
  The world is the list of answers the service will still give. The stub method takes the
  next one; the process runner prints a token between blanks; the token endpoint answers
  500; the authorization client holds nothing and refreshes at once.
\<close>

definition scripted_stub :: "(unit, nat, (exn + nat) list) stub_method" where
  "scripted_stub request md w =
     (case w of
        [] \<Rightarrow> (Inl (OtherException ''no answer left''), w)
      | x # xs \<Rightarrow> (x, xs))"

definition scripted_externals :: "(exn + nat) list externals" where
  "scripted_externals =
     \<lparr>py_str = (\<lambda>e. case e of RpcError r \<Rightarrow> details r | _ \<Rightarrow> ''exception''),
      requests_post = (\<lambda>endpoint body headers w.
        (Inr \<lparr>status_code = 500, response_text = ''down'', json = Inr []\<rparr>, w)),
      run_process = (\<lambda>command w. (Inr \<lparr>returncode = 0, stdout = '' tok '' @ [CHR 0x0A]\<rparr>, w)),
      get_client = (\<lambda>redirect_endpoint cid scs auth_endpoint tok_endpoint w. (None, w)),
      has_valid_credentials = (\<lambda>w. False),
      credentials_access_token = (\<lambda>w. Inr ''tok''),
      can_refresh_token = (\<lambda>w. True),
      refresh_access_token = (\<lambda>w. (None, w)),
      start_authorization_flow = (\<lambda>w. (None, w)),
      clear = (\<lambda>w. w)\<rparr>"

definition scripted_config :: config where
  "scripted_config =
     \<lparr>AUTH_MODE = ''external_process'', CLIENT_ID = ''cid'',
      CLIENT_CREDENTIALS_SECRET = Some ''sec'', SCOPES = [], COMMAND = [''get-token'']\<rparr>"

definition bare_client :: client where
  "bare_client = \<lparr>public_client_config = None, oauth2_metadata = None, metadata = None\<rparr>"

definition advertised_client :: client where
  "advertised_client =
     \<lparr>public_client_config =
        Some \<lparr>authorization_metadata_key = ''flyte-authorization'',
              redirect_uri = ''http://localhost:53593/callback'',
              client_id = ''flytectl'', scopes = [''all'', ''offline'']\<rparr>,
      oauth2_metadata =
        Some \<lparr>authorization_endpoint = ''https://idp/authorize'',
              token_endpoint = ''https://idp/token''\<rparr>,
      metadata = None\<rparr>"

definition unauthenticated :: exn where
  "unauthenticated = RpcError (RpcFailure UNAUTHENTICATED ''token expired'')"

definition unavailable :: exn where
  "unavailable = RpcError (RpcFailure UNAVAILABLE ''try again'')"

section \<open>Properties\<close>

declare str_replace.simps [simp del]

subsection \<open>Basic facts\<close>

lemma range_max_retries: "[0..<max_retries] = [0, 1, 2]"
  by (simp add: max_retries_def upt_conv_Cons)

lemma str_replace_prefix:
  assumes "old \<noteq> []"
  shows "str_replace old new (old @ t) = new @ str_replace old new t"
  using assms by (subst str_replace.simps) simp

lemma str_replace_absent:
  assumes "old \<noteq> []" and "\<And>pre post. s \<noteq> pre @ old @ post"
  shows "str_replace old new s = s"
  using assms(2)
proof (induction s)
  case Nil
  show ?case using assms(1) by (subst str_replace.simps) simp
next
  case (Cons c cs)
  have no_match: "take (length old) (c # cs) \<noteq> old"
  proof
    assume m: "take (length old) (c # cs) = old"
    have "c # cs = [] @ old @ drop (length old) (c # cs)"
      using append_take_drop_id [of "length old" "c # cs"] m by simp
    with Cons.prems show False by blast
  qed
  have rest: "str_replace old new cs = cs"
  proof (rule Cons.IH)
    fix pre post
    show "cs \<noteq> pre @ old @ post"
    proof
      assume "cs = pre @ old @ post"
      then have "c # cs = (c # pre) @ old @ post" by simp
      with Cons.prems show False by blast
    qed
  qed
  show ?case
    using assms(1) no_match rest by (subst str_replace.simps) simp
qed

text \<open>
  A token in which \<open>"Bearer "\<close> does not occur is recognised exactly: the check answers
  whether the candidate is the stored token.
\<close>

lemma check_access_token_plain_token:
  assumes "\<And>pre post. t \<noteq> pre @ ''Bearer '' @ post"
  shows "check_access_token (set_access_token self t k) c = Inr (c = t)"
proof -
  have "str_replace ''Bearer '' [] (''Bearer '' @ t) = t"
    using str_replace_prefix [of "''Bearer ''" "[]" t] str_replace_absent [of "''Bearer ''" t "[]"]
      assms by simp
  then show ?thesis
    by (simp add: check_access_token_def set_access_token_def)
qed

lemma check_access_token_before_set:
  assumes "init_client p om = Inr self"
  shows "check_access_token self c = Inr False"
  using assms
  by (auto simp: init_client_def check_access_token_def split: sum.splits)

text \<open>A call that succeeds is returned as it is, after one invocation.\<close>

lemma handle_rpc_error_success:
  assumes "fn s = (Inr r, s1)"
  shows "handle_rpc_error cfg ext retry fn s = ((Inr r, s1), [Invoke])"
  using assms by (simp add: handle_rpc_error_def range_max_retries)

lemma stub_operation_returns_response:
  assumes "m request (metadata (flyte_client s)) (world s) = (Inr response, w1)"
  shows "handle_rpc_error cfg ext retry (stub_call m request) s
           = ((Inr (Some response), s\<lparr>world := w1\<rparr>), [Invoke])"
  using assms by (simp add: handle_rpc_error_success stub_call_def)

lemma handle_invalid_create_request_drops_response:
  assumes "m request (metadata (flyte_client s)) (world s) = (Inr response, w1)"
  shows "handle_invalid_create_request (stub_call m) request s = (Inr None, s\<lparr>world := w1\<rparr>)"
  using assms by (simp add: handle_invalid_create_request_def stub_call_def)

lemma handle_invalid_create_request_reraises:
  assumes "fn request s = (Inl ex, s1)"
  shows "handle_invalid_create_request fn request s = (Inl ex, s1)"
  using assms by (simp add: handle_invalid_create_request_def split: exn.splits)

text \<open>
  The standard handler reads \<open>authorization_metadata_key\<close> before it looks whether the
  configuration is there: without the public client configuration it stops on the read,
  with it and without the OAuth2 metadata it raises the \<open>ValueError\<close>. The client is the
  same afterwards in both cases.
\<close>

lemma refresh_credentials_standard_no_public_config:
  assumes "public_client_config (flyte_client s) = None"
  shows "refresh_credentials_standard ext s
           = (Some (none_has_no_attribute ''authorization_metadata_key''), s)"
  using assms by (simp add: refresh_credentials_standard_def)

lemma refresh_credentials_standard_no_oauth2:
  assumes "public_client_config (flyte_client s) = Some pcc"
    and "oauth2_metadata (flyte_client s) = None"
  shows "refresh_credentials_standard ext s = (Some (ValueError no_admin_response), s)"
  using assms by (simp add: refresh_credentials_standard_def Let_def)

lemma refresh_credentials_basic_no_config:
  assumes "public_client_config (flyte_client s) = None \<or> oauth2_metadata (flyte_client s) = None"
  shows "refresh_credentials_basic cfg ext s = (Some (ValueError no_admin_response), s)"
  using assms by (auto simp: refresh_credentials_basic_def Let_def split: option.splits)

text \<open>The wrapped function is invoked at most once for each value of \<open>i\<close>.\<close>

lemma handler_loop_invocations:
  "length (filter (\<lambda>ev. ev = Invoke) (snd (handler_loop cfg ext retry fn js s))) \<le> length js"
proof (induction js arbitrary: s)
  case Nil
  show ?case by simp
next
  case (Cons i rest)
  have step: "\<And>evs s'. \<forall>ev\<in>set evs. ev \<noteq> Invoke \<Longrightarrow>
      length (filter (\<lambda>ev. ev = Invoke)
        (snd (after (Invoke # evs) (handler_loop cfg ext retry fn rest s')))) \<le> Suc (length rest)"
    using Cons.IH by (simp add: after_def)
  show ?case
    using step [of "[Refresh _]"] step [of "[Sleep _]"]
    by (auto simp: Let_def split: prod.splits sum.splits exn.splits option.splits)
qed

lemma handle_rpc_error_invocations:
  "length (filter (\<lambda>ev. ev = Invoke) (snd (handle_rpc_error cfg ext retry fn s))) \<le> max_retries"
  using handler_loop_invocations [of cfg ext retry fn "[0..<max_retries]" s]
  by (simp add: handle_rpc_error_def)

text \<open>What \<open>strip\<close> leaves neither begins nor ends with a blank.\<close>

lemma last_dropWhile_nonempty:
  "dropWhile P xs \<noteq> [] \<Longrightarrow> last (dropWhile P xs) = last xs"
  by (induction xs) (auto split: if_splits)

lemma str_strip_trimmed:
  "str_strip s = [] \<or> (\<not> is_space (hd (str_strip s)) \<and> \<not> is_space (last (str_strip s)))"
proof (cases "str_strip s = []")
  case True
  then show ?thesis by simp
next
  case False
  define ys where "ys = dropWhile is_space s"
  define zs where "zs = dropWhile is_space (rev ys)"
  have strip: "str_strip s = rev zs"
    by (simp add: str_strip_def ys_def zs_def)
  with False have zs: "zs \<noteq> []" by simp
  then have ys: "ys \<noteq> []" by (auto simp: zs_def)
  have "last (str_strip s) = hd zs"
    using zs by (simp add: strip last_rev)
  moreover have "\<not> is_space (hd zs)"
    using zs unfolding zs_def by (rule hd_dropWhile)
  moreover have "hd (str_strip s) = last zs"
    using zs by (simp add: strip hd_rev)
  moreover have "last zs = hd ys"
    using zs ys unfolding zs_def by (simp add: last_dropWhile_nonempty last_rev)
  moreover have "\<not> is_space (hd ys)"
    using ys unfolding ys_def by (rule hd_dropWhile)
  ultimately show ?thesis by simp
qed

subsection \<open>Claims on the client and the selector\<close>

text \<open>
  C4 (the code differs). The claim: the standard refresh strategy, on a client whose
  public client configuration or OAuth2 metadata is absent, raises a configuration error
  and leaves the credentials alone. On a client without public client configuration the
  handler raises the \<open>AttributeError\<close> of reading a field of \<open>None\<close>, not the
  \<open>ValueError\<close> that its own test two lines later was written to raise.
\<close>

theorem refresh_credentials_standard_attribute_error:
  "refresh_credentials_standard scripted_externals
     \<lparr>flyte_client = advertised_client\<lparr>public_client_config := None\<rparr>, world = []\<rparr>
   = (Some (none_has_no_attribute ''authorization_metadata_key''),
      \<lparr>flyte_client = advertised_client\<lparr>public_client_config := None\<rparr>, world = []\<rparr>)"
  by (simp add: refresh_credentials_standard_def advertised_client_def)

text \<open>
  C5 (the code differs). The claim: every wrapped operation, the create operations
  included, returns the response of the stub when the stub succeeds. \<open>create_task\<close>
  answers \<open>None\<close> where the stub answered 7; \<open>get_task\<close> on the same world answers 7.
\<close>

theorem create_task_returns_None:
  "create_task scripted_config scripted_externals scripted_stub ()
     \<lparr>flyte_client = bare_client, world = [Inr 7]\<rparr>
   = ((Inr None, \<lparr>flyte_client = bare_client, world = []\<rparr>), [Invoke])
   \<and> get_task scripted_config scripted_externals scripted_stub ()
     \<lparr>flyte_client = bare_client, world = [Inr 7]\<rparr>
   = ((Inr (Some 7), \<lparr>flyte_client = bare_client, world = []\<rparr>), [Invoke])"
  by (simp add: create_task_def get_task_def handle_rpc_error_def range_max_retries
      handle_invalid_create_request_def stub_call_def scripted_stub_def)

text \<open>
  C6 (the code differs). The claim: \<open>setAccessToken\<close> stores the header key in lower
  case. The key \<open>Authorization\<close> is stored as it was given, where the specification's
  \<open>setAccessToken\<close> stores \<open>authorization\<close>.
\<close>

theorem set_access_token_keeps_case:
  "metadata (set_access_token bare_client ''abc'' (Some ''Authorization''))
     = Some [(Some ''Authorization'', ''Bearer abc'')]
   \<and> metadata (spec_set_access_token bare_client ''abc'' ''Authorization'')
     = Some [(Some ''authorization'', ''Bearer abc'')]
   \<and> set_access_token bare_client ''abc'' (Some ''Authorization'')
     \<noteq> spec_set_access_token bare_client ''abc'' ''Authorization''"
  by code_simp

text \<open>
  C7 (the code differs). The claim: after \<open>setAccessToken(t)\<close>, \<open>hasToken(c)\<close> is true
  exactly when \<open>c\<close> equals \<open>t\<close>. With the token \<open>Bearer x\<close> stored, the check denies
  \<open>Bearer x\<close> and accepts \<open>x\<close>: every \<open>"Bearer "\<close> is removed from the stored value,
  not only the one that was put in front.
\<close>

theorem check_access_token_bearer_in_token:
  "check_access_token (set_access_token_default bare_client ''Bearer x'') ''Bearer x'' = Inr False
   \<and> check_access_token (set_access_token_default bare_client ''Bearer x'') ''x'' = Inr True"
  by (simp add: check_access_token_def set_access_token_default_def set_access_token_def
      bare_client_def str_replace.simps)

text \<open>
  C8. The selector maps \<open>standard\<close> to the standard handler, \<open>basic\<close> and
  \<open>client_credentials\<close> to the one basic handler, \<open>external_process\<close> to the handler
  that runs the command, and raises a \<open>ValueError\<close> for every other mode.
\<close>

theorem get_refresh_handler_selects:
  "get_refresh_handler ''standard'' = Inr Refresh_credentials_standard
   \<and> get_refresh_handler ''basic'' = Inr Refresh_credentials_basic
   \<and> get_refresh_handler ''client_credentials'' = Inr Refresh_credentials_basic
   \<and> get_refresh_handler ''external_process'' = Inr Refresh_credentials_from_command
   \<and> call_refresh_handler Refresh_credentials_standard cfg ext = refresh_credentials_standard ext
   \<and> call_refresh_handler Refresh_credentials_basic cfg ext = refresh_credentials_basic cfg ext
   \<and> call_refresh_handler Refresh_credentials_from_command cfg ext
       = refresh_credentials_from_command cfg ext
   \<and> (\<forall>auth_mode.
         auth_mode \<notin> {''standard'', ''basic'', ''client_credentials'', ''external_process''}
         \<longrightarrow> (\<exists>msg. get_refresh_handler auth_mode = Inl (ValueError msg)))"
  by (auto simp: get_refresh_handler_def fun_eq_iff)

theorem get_refresh_handler_selects_witness:
  "''none'' \<notin> {''standard'', ''basic'', ''client_credentials'', ''external_process''}
   \<and> (\<exists>msg. get_refresh_handler ''none'' = Inl (ValueError msg))
   \<and> get_refresh_handler ''basic'' = get_refresh_handler ''client_credentials''"
  using get_refresh_handler_selects [of scripted_config scripted_externals] by simp

subsection \<open>Claims on the retry wrapper\<close>

lemma unauthenticated_step:
  assumes "fn s = (Inl (RpcError e), s1)" and "code e = UNAUTHENTICATED"
    and "i \<noteq> max_retries - 1"
    and "get_refresh_handler (AUTH_MODE cfg) = Inr h"
    and "call_refresh_handler h cfg ext s1 = (None, s2)"
  shows "handler_loop cfg ext retry fn (i # rest) s
           = after [Invoke, Refresh h] (handler_loop cfg ext retry fn rest s2)"
  using assms by simp

lemma unauthenticated_last:
  assumes "fn s = (Inl (RpcError e), s1)" and "code e = UNAUTHENTICATED"
  shows "handler_loop cfg ext retry fn ((max_retries - 1) # rest) s
           = ((Inl (FlyteAuthenticationException (py_str ext (RpcError e))), s1), [Invoke])"
  using assms by simp

lemma success_step:
  assumes "fn s = (Inr r, s1)"
  shows "handler_loop cfg ext retry fn (i # rest) s = ((Inr r, s1), [Invoke])"
  using assms by simp

text \<open>A refresh that raises ends the call with its exception.\<close>

lemma unauthenticated_refresh_raises:
  assumes "fn s = (Inl (RpcError e), s1)" and "code e = UNAUTHENTICATED"
    and "get_refresh_handler (AUTH_MODE cfg) = Inr h"
    and "call_refresh_handler h cfg ext s1 = (Some ex, s2)"
  shows "handle_rpc_error cfg ext retry fn s = ((Inl ex, s2), [Invoke, Refresh h])"
  using assms unfolding handle_rpc_error_def range_max_retries
  by (simp add: max_retries_def)

lemma unauthenticated_no_handler:
  assumes "fn s = (Inl (RpcError e), s1)" and "code e = UNAUTHENTICATED"
    and "get_refresh_handler (AUTH_MODE cfg) = Inl ex"
  shows "handle_rpc_error cfg ext retry fn s = ((Inl ex, s1), [Invoke])"
  using assms unfolding handle_rpc_error_def range_max_retries
  by (simp add: max_retries_def)

lemma unauthenticated_then_success:
  assumes n: "n < max_retries"
    and fails: "\<And>k. k < n \<Longrightarrow>
       fn (S k) = (Inl (RpcError (E k)), S' k) \<and> code (E k) = UNAUTHENTICATED
       \<and> get_refresh_handler (AUTH_MODE cfg) = Inr h
       \<and> call_refresh_handler h cfg ext (S' k) = (None, S (Suc k))"
    and ok: "fn (S n) = (Inr r, sf)"
  shows "handle_rpc_error cfg ext retry fn (S 0)
           = ((Inr r, sf), concat (replicate n [Invoke, Refresh h]) @ [Invoke])"
proof -
  consider "n = 0" | "n = 1" | "n = 2"
    using n unfolding max_retries_def by linarith
  then show ?thesis
  proof cases
    case 1
    then show ?thesis
      using ok unfolding handle_rpc_error_def range_max_retries by simp
  next
    case 2
    then show ?thesis
      using ok fails [of 0] unfolding handle_rpc_error_def range_max_retries
      by (simp add: max_retries_def after_def)
  next
    case 3
    then show ?thesis
      using ok fails [of 0] fails [of 1] unfolding handle_rpc_error_def range_max_retries
      by (simp add: max_retries_def after_def numeral_2_eq_2)
  qed
qed

lemma unauthenticated_throughout:
  assumes fails: "\<And>k. k < max_retries \<Longrightarrow>
       fn (S k) = (Inl (RpcError (E k)), S' k) \<and> code (E k) = UNAUTHENTICATED"
    and refreshes: "\<And>k. k < max_retries - 1 \<Longrightarrow>
       get_refresh_handler (AUTH_MODE cfg) = Inr h
       \<and> call_refresh_handler h cfg ext (S' k) = (None, S (Suc k))"
  shows "handle_rpc_error cfg ext retry fn (S 0)
           = ((Inl (FlyteAuthenticationException (py_str ext (RpcError (E (max_retries - 1))))),
               S' (max_retries - 1)),
              concat (replicate (max_retries - 1) [Invoke, Refresh h]) @ [Invoke])"
  using fails [of 0] fails [of 1] fails [of 2] refreshes [of 0] refreshes [of 1]
  unfolding handle_rpc_error_def range_max_retries
  by (simp add: max_retries_def after_def numeral_2_eq_2)

text \<open>
  C1. A call that fails with UNAUTHENTICATED on each of its first \<open>n\<close> attempts
  (\<open>n < max_retries - 1\<close>), every refresh returning, and then succeeds, returns the
  success; what the wrapper did is \<open>n\<close> times an invocation followed by the refresh
  handler of the configured mode, then the last invocation, with no sleep anywhere. A call
  whose \<open>max_retries\<close> attempts all fail with UNAUTHENTICATED raises
  \<open>FlyteAuthenticationException\<close> on the text of the last failure, after
  \<open>max_retries - 1\<close> refreshes. \<open>S k\<close> is the state before attempt \<open>k\<close>; \<open>S' k\<close>
  the state the failed attempt leaves, \<open>E k\<close> its error.
\<close>

theorem handle_rpc_error_unauthenticated:
  "(n < max_retries - 1
      \<and> (\<forall>k<n. fn (S k) = (Inl (RpcError (E k)), S' k) \<and> code (E k) = UNAUTHENTICATED
               \<and> get_refresh_handler (AUTH_MODE cfg) = Inr h
               \<and> call_refresh_handler h cfg ext (S' k) = (None, S (Suc k)))
      \<and> fn (S n) = (Inr r, sf)
      \<longrightarrow> handle_rpc_error cfg ext retry fn (S 0)
            = ((Inr r, sf), concat (replicate n [Invoke, Refresh h]) @ [Invoke]))
   \<and> ((\<forall>k<max_retries. fn (S k) = (Inl (RpcError (E k)), S' k)
                          \<and> code (E k) = UNAUTHENTICATED)
      \<and> (\<forall>k<max_retries - 1. get_refresh_handler (AUTH_MODE cfg) = Inr h
                          \<and> call_refresh_handler h cfg ext (S' k) = (None, S (Suc k)))
      \<longrightarrow> handle_rpc_error cfg ext retry fn (S 0)
            = ((Inl (FlyteAuthenticationException
                       (py_str ext (RpcError (E (max_retries - 1))))),
                S' (max_retries - 1)),
               concat (replicate (max_retries - 1) [Invoke, Refresh h]) @ [Invoke]))"
proof (intro conjI impI)
  assume a: "n < max_retries - 1
      \<and> (\<forall>k<n. fn (S k) = (Inl (RpcError (E k)), S' k) \<and> code (E k) = UNAUTHENTICATED
               \<and> get_refresh_handler (AUTH_MODE cfg) = Inr h
               \<and> call_refresh_handler h cfg ext (S' k) = (None, S (Suc k)))
      \<and> fn (S n) = (Inr r, sf)"
  then have "n < max_retries" by linarith
  with a show "handle_rpc_error cfg ext retry fn (S 0)
            = ((Inr r, sf), concat (replicate n [Invoke, Refresh h]) @ [Invoke])"
    by (intro unauthenticated_then_success [where S' = S' and E = E]) auto
next
  assume b: "(\<forall>k<max_retries. fn (S k) = (Inl (RpcError (E k)), S' k)
                          \<and> code (E k) = UNAUTHENTICATED)
      \<and> (\<forall>k<max_retries - 1. get_refresh_handler (AUTH_MODE cfg) = Inr h
                          \<and> call_refresh_handler h cfg ext (S' k) = (None, S (Suc k)))"
  then show "handle_rpc_error cfg ext retry fn (S 0)
            = ((Inl (FlyteAuthenticationException
                       (py_str ext (RpcError (E (max_retries - 1))))),
                S' (max_retries - 1)),
               concat (replicate (max_retries - 1) [Invoke, Refresh h]) @ [Invoke])"
    by (intro unauthenticated_throughout) auto
qed


theorem handle_rpc_error_unauthenticated_witness:
  "handle_rpc_error scripted_config scripted_externals False (stub_call scripted_stub ())
     \<lparr>flyte_client = bare_client, world = [Inl unauthenticated, Inr 7]\<rparr>
   = ((Inr (Some 7),
       \<lparr>flyte_client = bare_client\<lparr>metadata := Some [(Some ''authorization'', ''Bearer tok'')]\<rparr>,
        world = []\<rparr>),
      [Invoke, Refresh Refresh_credentials_from_command, Invoke])
   \<and> handle_rpc_error scripted_config scripted_externals False (stub_call scripted_stub ())
     \<lparr>flyte_client = bare_client,
      world = [Inl unauthenticated, Inl unauthenticated, Inl unauthenticated]\<rparr>
   = ((Inl (FlyteAuthenticationException ''token expired''),
       \<lparr>flyte_client = bare_client\<lparr>metadata := Some [(Some ''authorization'', ''Bearer tok'')]\<rparr>,
        world = []\<rparr>),
      [Invoke, Refresh Refresh_credentials_from_command, Invoke,
       Refresh Refresh_credentials_from_command, Invoke])"
  using handle_rpc_error_unauthenticated
      [where n = 1 and fn = "stub_call scripted_stub ()" and cfg = scripted_config
         and ext = scripted_externals and retry = False
         and h = Refresh_credentials_from_command and r = "Some 7"
         and E = "\<lambda>k. RpcFailure UNAUTHENTICATED ''token expired''"
         and S = "\<lambda>k. if k = 0
                      then \<lparr>flyte_client = bare_client, world = [Inl unauthenticated, Inr 7]\<rparr>
                      else \<lparr>flyte_client = bare_client
                              \<lparr>metadata := Some [(Some ''authorization'', ''Bearer tok'')]\<rparr>,
                            world = [Inr 7]\<rparr>"
         and S' = "\<lambda>k. \<lparr>flyte_client = bare_client, world = [Inr 7]\<rparr>"
         and sf = "\<lparr>flyte_client = bare_client
                      \<lparr>metadata := Some [(Some ''authorization'', ''Bearer tok'')]\<rparr>,
                    world = []\<rparr>"]
    handle_rpc_error_unauthenticated
      [where n = 0 and fn = "stub_call scripted_stub ()" and cfg = scripted_config
         and ext = scripted_externals and retry = False
         and h = Refresh_credentials_from_command and r = None
         and E = "\<lambda>k. RpcFailure UNAUTHENTICATED ''token expired''"
         and S = "\<lambda>k. \<lparr>flyte_client =
                          (if k = 0 then bare_client
                           else bare_client
                              \<lparr>metadata := Some [(Some ''authorization'', ''Bearer tok'')]\<rparr>),
                        world = drop k [Inl unauthenticated, Inl unauthenticated,
                                        Inl unauthenticated]\<rparr>"
         and S' = "\<lambda>k. \<lparr>flyte_client =
                          (if k = 0 then bare_client
                           else bare_client
                              \<lparr>metadata := Some [(Some ''authorization'', ''Bearer tok'')]\<rparr>),
                        world = drop (Suc k) [Inl unauthenticated, Inl unauthenticated,
                                              Inl unauthenticated]\<rparr>"
         and sf = "\<lparr>flyte_client = bare_client, world = []\<rparr>"]
  by (simp add: stub_call_def scripted_stub_def unauthenticated_def max_retries_def
      numeral_3_eq_3 numeral_2_eq_2 All_less_Suc
      get_refresh_handler_def scripted_config_def
      refresh_credentials_from_command_def subprocess_run_check_def scripted_externals_def
      set_access_token_default_def set_access_token_def str_strip_def is_space_def)

text \<open>
  C2. A failure with ALREADY_EXISTS raises \<open>FlyteEntityAlreadyExistsException\<close>, one with
  NOT_FOUND raises \<open>FlyteEntityNotExistException\<close>, for both values of \<open>retry\<close> and
  at whatever attempt \<open>i\<close> it occurs: the wrapped function was invoked once, no refresh
  and no sleep follow.
\<close>

theorem handle_rpc_error_conflict_not_retried:
  "(fn s = (Inl (RpcError e), s1) \<and> code e = ALREADY_EXISTS
      \<longrightarrow> handle_rpc_error cfg ext retry fn s
            = ((Inl (FlyteEntityAlreadyExistsException e), s1), [Invoke])
          \<and> handler_loop cfg ext retry fn (i # rest) s
            = ((Inl (FlyteEntityAlreadyExistsException e), s1), [Invoke]))
   \<and> (fn s = (Inl (RpcError e), s1) \<and> code e = NOT_FOUND
      \<longrightarrow> handle_rpc_error cfg ext retry fn s
            = ((Inl (FlyteEntityNotExistException e), s1), [Invoke])
          \<and> handler_loop cfg ext retry fn (i # rest) s
            = ((Inl (FlyteEntityNotExistException e), s1), [Invoke]))"
  by (simp add: handle_rpc_error_def range_max_retries)

theorem handle_rpc_error_conflict_not_retried_witness:
  "handle_rpc_error scripted_config scripted_externals True (stub_call scripted_stub ())
     \<lparr>flyte_client = bare_client, world = [Inl (RpcError (RpcFailure ALREADY_EXISTS ''same'')), Inr 7]\<rparr>
   = ((Inl (FlyteEntityAlreadyExistsException (RpcFailure ALREADY_EXISTS ''same'')),
       \<lparr>flyte_client = bare_client, world = [Inr 7]\<rparr>), [Invoke])
   \<and> handle_rpc_error scripted_config scripted_externals False (stub_call scripted_stub ())
     \<lparr>flyte_client = bare_client, world = [Inl (RpcError (RpcFailure NOT_FOUND ''gone'')), Inr 7]\<rparr>
   = ((Inl (FlyteEntityNotExistException (RpcFailure NOT_FOUND ''gone'')),
       \<lparr>flyte_client = bare_client, world = [Inr 7]\<rparr>), [Invoke])"
  using handle_rpc_error_conflict_not_retried
      [of "stub_call scripted_stub ()"
          "\<lparr>flyte_client = bare_client,
             world = [Inl (RpcError (RpcFailure ALREADY_EXISTS ''same'')), Inr 7]\<rparr>"
          "RpcFailure ALREADY_EXISTS ''same''"
          "\<lparr>flyte_client = bare_client, world = [Inr 7]\<rparr>"
          scripted_config scripted_externals True 0 "[]"]
    handle_rpc_error_conflict_not_retried
      [of "stub_call scripted_stub ()"
          "\<lparr>flyte_client = bare_client,
             world = [Inl (RpcError (RpcFailure NOT_FOUND ''gone'')), Inr 7]\<rparr>"
          "RpcFailure NOT_FOUND ''gone''"
          "\<lparr>flyte_client = bare_client, world = [Inr 7]\<rparr>"
          scripted_config scripted_externals False 0 "[]"]
  by (simp add: stub_call_def scripted_stub_def)

text \<open>
  C3. A failure with any other code is raised again as it is when \<open>retry\<close> is false or
  the attempt is the last one (so at the first attempt, with no sleep, when \<open>retry\<close> is
  false); otherwise the wrapper sleeps \<open>min (200 * 2 ^ i) 1000\<close> milliseconds and goes on
  with the next attempt. With \<open>retry\<close>, two such failures and a success give sleeps of
  200 and 400 milliseconds and the success; three such failures give the third one back.
\<close>

theorem handle_rpc_error_other_failures:
  "(fn s = (Inl (RpcError e), s1)
      \<and> code e \<notin> {UNAUTHENTICATED, ALREADY_EXISTS, NOT_FOUND}
      \<and> (retry = False \<or> i = max_retries - 1)
      \<longrightarrow> handler_loop cfg ext retry fn (i # rest) s = ((Inl (RpcError e), s1), [Invoke]))
   \<and> (fn s = (Inl (RpcError e), s1)
      \<and> code e \<notin> {UNAUTHENTICATED, ALREADY_EXISTS, NOT_FOUND}
      \<and> retry = True \<and> i \<noteq> max_retries - 1
      \<longrightarrow> handler_loop cfg ext retry fn (i # rest) s
            = after [Invoke, Sleep (min (200 * 2 ^ i) 1000)]
                (handler_loop cfg ext retry fn rest s1))
   \<and> (fn s = (Inl (RpcError e), s1)
      \<and> code e \<notin> {UNAUTHENTICATED, ALREADY_EXISTS, NOT_FOUND}
      \<longrightarrow> handle_rpc_error cfg ext False fn s = ((Inl (RpcError e), s1), [Invoke]))
   \<and> (fn s = (Inl (RpcError e), s1)
      \<and> code e \<notin> {UNAUTHENTICATED, ALREADY_EXISTS, NOT_FOUND}
      \<and> fn s1 = (Inl (RpcError e'), s2)
      \<and> code e' \<notin> {UNAUTHENTICATED, ALREADY_EXISTS, NOT_FOUND}
      \<and> fn s2 = (Inr r, s3)
      \<longrightarrow> handle_rpc_error cfg ext True fn s
            = ((Inr r, s3), [Invoke, Sleep 200, Invoke, Sleep 400, Invoke]))
   \<and> (fn s = (Inl (RpcError e), s1)
      \<and> code e \<notin> {UNAUTHENTICATED, ALREADY_EXISTS, NOT_FOUND}
      \<and> fn s1 = (Inl (RpcError e'), s2)
      \<and> code e' \<notin> {UNAUTHENTICATED, ALREADY_EXISTS, NOT_FOUND}
      \<and> fn s2 = (Inl (RpcError e''), s3)
      \<and> code e'' \<notin> {UNAUTHENTICATED, ALREADY_EXISTS, NOT_FOUND}
      \<longrightarrow> handle_rpc_error cfg ext True fn s
            = ((Inl (RpcError e''), s3), [Invoke, Sleep 200, Invoke, Sleep 400, Invoke]))"
  unfolding handle_rpc_error_def range_max_retries
  by (simp add: max_retries_def max_wait_time_def after_def)

theorem handle_rpc_error_other_failures_witness:
  "handle_rpc_error scripted_config scripted_externals True (stub_call scripted_stub ())
     \<lparr>flyte_client = bare_client, world = [Inl unavailable, Inl unavailable, Inr 7]\<rparr>
   = ((Inr (Some 7), \<lparr>flyte_client = bare_client, world = []\<rparr>),
      [Invoke, Sleep 200, Invoke, Sleep 400, Invoke])
   \<and> handle_rpc_error scripted_config scripted_externals False (stub_call scripted_stub ())
     \<lparr>flyte_client = bare_client, world = [Inl unavailable, Inl unavailable, Inr 7]\<rparr>
   = ((Inl unavailable, \<lparr>flyte_client = bare_client, world = [Inl unavailable, Inr 7]\<rparr>),
      [Invoke])
   \<and> handle_rpc_error scripted_config scripted_externals True (stub_call scripted_stub ())
     \<lparr>flyte_client = bare_client, world = [Inl unavailable, Inl unavailable, Inl unavailable]\<rparr>
   = ((Inl unavailable, \<lparr>flyte_client = bare_client, world = []\<rparr>),
      [Invoke, Sleep 200, Invoke, Sleep 400, Invoke])
   \<and> handler_loop scripted_config scripted_externals True (stub_call scripted_stub ()) [2]
     \<lparr>flyte_client = bare_client, world = [Inl unavailable, Inr 7]\<rparr>
   = ((Inl unavailable, \<lparr>flyte_client = bare_client, world = [Inr 7]\<rparr>), [Invoke])"
  using handle_rpc_error_other_failures
      [of "stub_call scripted_stub ()"
          "\<lparr>flyte_client = bare_client, world = [Inl unavailable, Inl unavailable, Inr 7]\<rparr>"
          "RpcFailure UNAVAILABLE ''try again''"
          "\<lparr>flyte_client = bare_client, world = [Inl unavailable, Inr 7]\<rparr>"
          True 0 scripted_config scripted_externals "[1, 2]"
          "RpcFailure UNAVAILABLE ''try again''"
          "\<lparr>flyte_client = bare_client, world = [Inr 7]\<rparr>"
          "Some 7" "\<lparr>flyte_client = bare_client, world = []\<rparr>"]
    handle_rpc_error_other_failures
      [of "stub_call scripted_stub ()"
          "\<lparr>flyte_client = bare_client,
             world = [Inl unavailable, Inl unavailable, Inl unavailable]\<rparr>"
          "RpcFailure UNAVAILABLE ''try again''"
          "\<lparr>flyte_client = bare_client, world = [Inl unavailable, Inl unavailable]\<rparr>"
          True 0 scripted_config scripted_externals "[1, 2]"
          "RpcFailure UNAVAILABLE ''try again''"
          "\<lparr>flyte_client = bare_client, world = [Inl unavailable]\<rparr>"
          "Some 7" "\<lparr>flyte_client = bare_client, world = []\<rparr>"
          "RpcFailure UNAVAILABLE ''try again''"]
    handle_rpc_error_other_failures
      [of "stub_call scripted_stub ()"
          "\<lparr>flyte_client = bare_client, world = [Inl unavailable, Inr 7]\<rparr>"
          "RpcFailure UNAVAILABLE ''try again''"
          "\<lparr>flyte_client = bare_client, world = [Inr 7]\<rparr>"
          True 2 scripted_config scripted_externals "[]"]
  by (simp add: stub_call_def scripted_stub_def unavailable_def max_retries_def)

subsection \<open>Claims on the refresh handlers\<close>

text \<open>
  C9. The header built from \<open>cid\<close> and \<open>sec\<close> is \<open>Basic\<close>, a blank, and the base64
  text of \<open>cid:sec\<close>. When the token endpoint, asked with the client-credentials grant,
  the joined scopes and that header, answers with a status other than 200, the basic
  handler raises \<open>FlyteAuthenticationException\<close> and the client is as it was.
\<close>

theorem refresh_credentials_basic_non_200:
  "get_basic_authorization_header ''cid'' ''sec'' = ''Basic '' @ b64encode (utf8_encode ''cid:sec'')
   \<and> b64encode (utf8_encode ''cid:sec'') = ''Y2lkOnNlYw==''
   \<and> (oauth2_metadata (flyte_client s) = Some om
        \<and> public_client_config (flyte_client s) = Some pcc
        \<and> get_secret cfg = Inr client_secret
        \<and> requests_post ext (token_endpoint om)
             [(''grant_type'', ''client_credentials''),
              (''scope'', str_join '','' (if SCOPES cfg \<noteq> [] then SCOPES cfg else scopes pcc))]
             [(''Authorization'', get_basic_authorization_header (CLIENT_ID cfg) client_secret),
              (''Cache-Control'', ''no-cache''),
              (''Accept'', ''application/json''),
              (''Content-Type'', ''application/x-www-form-urlencoded'')]
             (world s) = (Inr response, w1)
        \<and> status_code response \<noteq> 200
      \<longrightarrow> refresh_credentials_basic cfg ext s
            = (Some (FlyteAuthenticationException ''Non-200 received from IDP''),
               s\<lparr>world := w1\<rparr>)
          \<and> flyte_client (snd (refresh_credentials_basic cfg ext s)) = flyte_client s)"
proof (intro conjI impI)
  show "get_basic_authorization_header ''cid'' ''sec''
          = ''Basic '' @ b64encode (utf8_encode ''cid:sec'')"
    by (simp add: get_basic_authorization_header_def)
  show "b64encode (utf8_encode ''cid:sec'') = ''Y2lkOnNlYw==''"
    by (simp add: utf8_encode_def b64_alphabet_def)
next
  assume h: "oauth2_metadata (flyte_client s) = Some om
        \<and> public_client_config (flyte_client s) = Some pcc
        \<and> get_secret cfg = Inr client_secret
        \<and> requests_post ext (token_endpoint om)
             [(''grant_type'', ''client_credentials''),
              (''scope'', str_join '','' (if SCOPES cfg \<noteq> [] then SCOPES cfg else scopes pcc))]
             [(''Authorization'', get_basic_authorization_header (CLIENT_ID cfg) client_secret),
              (''Cache-Control'', ''no-cache''),
              (''Accept'', ''application/json''),
              (''Content-Type'', ''application/x-www-form-urlencoded'')]
             (world s) = (Inr response, w1)
        \<and> status_code response \<noteq> 200"
  then have tok: "get_token ext (token_endpoint om)
      (get_basic_authorization_header (CLIENT_ID cfg) client_secret)
      (Some (str_join '','' (if SCOPES cfg \<noteq> [] then SCOPES cfg else scopes pcc))) (world s)
      = (Inl (FlyteAuthenticationException ''Non-200 received from IDP''), w1)"
    by (simp add: get_token_def)
  show r: "refresh_credentials_basic cfg ext s
            = (Some (FlyteAuthenticationException ''Non-200 received from IDP''),
               s\<lparr>world := w1\<rparr>)"
    using h tok by (simp add: refresh_credentials_basic_def Let_def)
  show "flyte_client (snd (refresh_credentials_basic cfg ext s)) = flyte_client s"
    by (simp add: r)
qed

theorem refresh_credentials_basic_non_200_witness:
  "refresh_credentials_basic scripted_config scripted_externals
     \<lparr>flyte_client = advertised_client, world = []\<rparr>
   = (Some (FlyteAuthenticationException ''Non-200 received from IDP''),
      \<lparr>flyte_client = advertised_client, world = []\<rparr>)
   \<and> get_basic_authorization_header ''cid'' ''sec'' = ''Basic Y2lkOnNlYw==''"
  using refresh_credentials_basic_non_200
      [of "\<lparr>flyte_client = advertised_client, world = []\<rparr>"
          "\<lparr>authorization_endpoint = ''https://idp/authorize'',
              token_endpoint = ''https://idp/token''\<rparr>"
          "\<lparr>authorization_metadata_key = ''flyte-authorization'',
              redirect_uri = ''http://localhost:53593/callback'',
              client_id = ''flytectl'', scopes = [''all'', ''offline'']\<rparr>"
          scripted_config "''sec''" scripted_externals
          "\<lparr>status_code = 500, response_text = ''down'', json = Inr []\<rparr>" "[]"]
  by (simp add: scripted_externals_def scripted_config_def advertised_client_def get_secret_def)

text \<open>
  The output of the command is blanks, then what \<open>strip\<close> leaves, then blanks; and what
  is so placed in a string, with no blank at either end, is what \<open>strip\<close> leaves.
\<close>

lemma is_space_chars:
  "is_space c \<longleftrightarrow> (of_char c :: nat) \<in> {9, 10, 11, 12, 13, 28, 29, 30, 31, 32, 133, 160}"
  unfolding is_space_def Let_def by auto

lemma str_strip_decomposes:
  "\<exists>pre post. s = pre @ str_strip s @ post
      \<and> (\<forall>c\<in>set pre. is_space c) \<and> (\<forall>c\<in>set post. is_space c)"
proof -
  define ys where "ys = dropWhile is_space s"
  define pre where "pre = takeWhile is_space s"
  define post where "post = rev (takeWhile is_space (rev ys))"
  have "rev (dropWhile is_space (rev ys)) @ rev (takeWhile is_space (rev ys))
          = rev (takeWhile is_space (rev ys) @ dropWhile is_space (rev ys))"
    by (simp only: rev_append)
  also have "\<dots> = rev (rev ys)"
    by (simp only: takeWhile_dropWhile_id)
  finally have ys: "ys = str_strip s @ post"
    by (simp add: str_strip_def ys_def post_def)
  have "s = pre @ ys"
    by (simp add: pre_def ys_def)
  with ys have "s = pre @ str_strip s @ post" by simp
  moreover have "\<forall>c\<in>set pre. is_space c"
    unfolding pre_def by (auto dest: set_takeWhileD)
  moreover have "\<forall>c\<in>set post. is_space c"
    unfolding post_def by (auto dest: set_takeWhileD)
  ultimately show ?thesis by blast
qed

lemma str_strip_unique:
  assumes s: "s = pre @ t @ post"
    and pre: "\<forall>c\<in>set pre. is_space c" and post: "\<forall>c\<in>set post. is_space c"
    and t: "t = [] \<or> (\<not> is_space (hd t) \<and> \<not> is_space (last t))"
  shows "str_strip s = t"
proof (cases "t = []")
  case True
  have "\<forall>c\<in>set s. is_space c"
    using pre post unfolding s True by auto
  then have a: "dropWhile is_space s = []"
    by (simp only: dropWhile_eq_Nil_conv)
  show ?thesis unfolding str_strip_def a True by simp
next
  case False
  with t have h: "\<not> is_space (hd t)" and l: "\<not> is_space (last t)" by auto
  have front: "dropWhile is_space s = t @ post"
  proof -
    have "dropWhile is_space s = dropWhile is_space (t @ post)"
      using pre unfolding s by simp
    also have "\<dots> = t @ post"
      using False h by (cases t) auto
    finally show ?thesis .
  qed
  have "\<And>c. c \<in> set (rev post) \<Longrightarrow> is_space c"
    using post by simp
  then have "dropWhile is_space (rev post @ rev t) = dropWhile is_space (rev t)"
    by (rule dropWhile_append2)
  then have "dropWhile is_space (rev (t @ post)) = dropWhile is_space (rev t)"
    by simp
  also have "\<dots> = rev t"
    using False l by (cases "rev t") (auto simp: last_rev [symmetric] hd_rev)
  finally show ?thesis
    by (simp add: str_strip_def front)
qed

text \<open>
  C10. When the configured command ends with exit status 0 and its output is read, the
  handler stores the trimmed output as the token under the key \<open>authorization\<close>, on
  any client: whatever key the server advertises, and with or without public client
  configuration and OAuth2 metadata. Trimmed: the output is blanks, the token, blanks, and
  the token neither begins nor ends with a blank; the blanks are the twelve code points
  below 256 that \<open>str.isspace\<close> accepts.
\<close>

theorem refresh_credentials_from_command_stores_output:
  assumes "run_process ext (COMMAND cfg) (world s) = (Inr out, w1)"
    and "returncode out = 0"
  shows "\<exists>token pre post.
           refresh_credentials_from_command cfg ext s
             = (None, \<lparr>flyte_client = (flyte_client s)
                          \<lparr>metadata := Some [(Some ''authorization'', ''Bearer '' @ token)]\<rparr>,
                       world = w1\<rparr>)
           \<and> stdout out = pre @ token @ post
           \<and> (\<forall>c\<in>set pre. is_space c) \<and> (\<forall>c\<in>set post. is_space c)
           \<and> (token = [] \<or> (\<not> is_space (hd token) \<and> \<not> is_space (last token)))
           \<and> (\<forall>c. is_space c \<longleftrightarrow>
                 (of_char c :: nat) \<in> {9, 10, 11, 12, 13, 28, 29, 30, 31, 32, 133, 160})"
proof -
  obtain pre post where d: "stdout out = pre @ str_strip (stdout out) @ post"
      "\<forall>c\<in>set pre. is_space c" "\<forall>c\<in>set post. is_space c"
    using str_strip_decomposes [of "stdout out"] by blast
  have r: "refresh_credentials_from_command cfg ext s
             = (None, \<lparr>flyte_client = (flyte_client s)
                          \<lparr>metadata := Some [(Some ''authorization'',
                                              ''Bearer '' @ str_strip (stdout out))]\<rparr>,
                       world = w1\<rparr>)"
    using assms
    by (simp add: refresh_credentials_from_command_def subprocess_run_check_def
        set_access_token_default_def set_access_token_def)
  show ?thesis
    using r d str_strip_trimmed [of "stdout out"] is_space_chars by blast
qed

theorem refresh_credentials_from_command_stores_output_witness:
  "(\<exists>token pre post.
      refresh_credentials_from_command scripted_config scripted_externals
        \<lparr>flyte_client = advertised_client, world = []\<rparr>
      = (None, \<lparr>flyte_client = advertised_client
                   \<lparr>metadata := Some [(Some ''authorization'', ''Bearer '' @ token)]\<rparr>,
                world = []\<rparr>)
      \<and> '' tok '' @ [CHR 0x0A] = pre @ token @ post
      \<and> list_all is_space pre \<and> list_all is_space post
      \<and> (token = [] \<or> (\<not> is_space (hd token) \<and> \<not> is_space (last token))))
   \<and> refresh_credentials_from_command scripted_config scripted_externals
        \<lparr>flyte_client = advertised_client, world = []\<rparr>
      = (None, \<lparr>flyte_client = advertised_client
                   \<lparr>metadata := Some [(Some ''authorization'', ''Bearer tok'')]\<rparr>,
                world = []\<rparr>)
   \<and> refresh_credentials_from_command scripted_config scripted_externals
        \<lparr>flyte_client = bare_client, world = []\<rparr>
      = (None, \<lparr>flyte_client = bare_client
                   \<lparr>metadata := Some [(Some ''authorization'', ''Bearer tok'')]\<rparr>,
                world = []\<rparr>)"
proof -
  have run: "run_process scripted_externals (COMMAND scripted_config)
               (world \<lparr>flyte_client = advertised_client, world = []\<rparr>)
             = (Inr \<lparr>returncode = 0, stdout = '' tok '' @ [CHR 0x0A]\<rparr>, [])"
    by (simp add: scripted_externals_def)
  have zero: "returncode \<lparr>returncode = 0, stdout = '' tok '' @ [CHR 0x0A]\<rparr> = 0"
    by simp
  have first: "\<exists>token pre post.
      refresh_credentials_from_command scripted_config scripted_externals
        \<lparr>flyte_client = advertised_client, world = []\<rparr>
      = (None, \<lparr>flyte_client = advertised_client
                   \<lparr>metadata := Some [(Some ''authorization'', ''Bearer '' @ token)]\<rparr>,
                world = []\<rparr>)
      \<and> '' tok '' @ [CHR 0x0A] = pre @ token @ post
      \<and> list_all is_space pre \<and> list_all is_space post
      \<and> (token = [] \<or> (\<not> is_space (hd token) \<and> \<not> is_space (last token)))"
    using refresh_credentials_from_command_stores_output [OF run zero]
    by (simp add: list_all_iff) blast
  have rest: "refresh_credentials_from_command scripted_config scripted_externals
        \<lparr>flyte_client = c, world = []\<rparr>
      = (None, \<lparr>flyte_client = c
                   \<lparr>metadata := Some [(Some ''authorization'', ''Bearer tok'')]\<rparr>,
                world = []\<rparr>)" for c
    by (simp add: refresh_credentials_from_command_def subprocess_run_check_def
        scripted_externals_def scripted_config_def set_access_token_default_def
        set_access_token_def str_strip_def is_space_def)
  show ?thesis using first rest by blast
qed

end
